theory Spec2Isabelle
  imports Main "HOL-Library.AList" "HOL-Library.Sublist"
begin

section \<open>QuackCore integration registry: data model\<close>

text \<open>
  The development embeds \<^verbatim>\<open>src/quackcore/integrations/registry.py\<close>.

  Exceptions are values. Only the classes that the handlers of the module tell apart
  are distinguished: \<open>ImportError\<close> (with its subclass ModuleNotFoundError),
  \<open>AttributeError\<close>, \<open>TypeError\<close>, \<open>ValueError\<close>, the repository's own
  \<open>QuackError\<close>, and \<open>OtherException\<close> for every other subclass of Exception
  (RuntimeError, KeyError, ...). A \<open>QuackError\<close> records at which \<^verbatim>\<open>raise\<close> of
  the module it was built, the name or path it is about, and its \<^verbatim>\<open>original_error\<close>.
  Signals that are not subclasses of Exception (KeyboardInterrupt, SystemExit) are not
  errors of a candidate and are not modelled.
\<close>

datatype quack_site = AlreadyRegistered | FailedImport | ErrorAccessing

datatype exc =
    ImportError
  | AttributeError
  | TypeError
  | ValueError
  | OtherException
  | QuackError quack_site string "exc option"

fun is_QuackError :: "exc \<Rightarrow> bool" where
  "is_QuackError (QuackError _ _ _) = True"
| "is_QuackError _ = False"

text \<open>
  A candidate object, as far as the registry looks at it: its identity and the four
  attributes that the registry probes with \<^verbatim>\<open>hasattr\<close> and \<^verbatim>\<open>callable\<close>.
  \<open>None\<close> is an absent attribute; for \<open>initialize\<close> and \<open>is_available\<close> the
  boolean says whether the attribute's value is callable. Objects are snapshots: no
  operation of the registry writes to an instance.
\<close>

record pyobj =
  ident :: nat
  name :: "string option"
  version :: "string option"
  initialize :: "bool option"
  is_available :: "bool option"

definition hasattr :: "'a option \<Rightarrow> bool" where
  "hasattr a \<longleftrightarrow> a \<noteq> None"

definition callable_attr :: "bool option \<Rightarrow> bool" where
  "callable_attr a \<longleftrightarrow> a = Some True"

text \<open>
  The Capability Contract in the words of the specification: presence of \<open>name\<close>,
  \<open>version\<close>, \<open>initialize\<close>, \<open>is_available\<close>, with \<open>initialize\<close> and
  \<open>is_available\<close> additionally callable. The source has no such function; it writes
  its checks inline at each acceptance point, and the functions below copy them as they
  stand.
\<close>

definition satisfies_contract :: "pyobj \<Rightarrow> bool" where
  "satisfies_contract p \<longleftrightarrow>
     name p \<noteq> None \<and> version p \<noteq> None \<and> initialize p \<noteq> None \<and> is_available p \<noteq> None
     \<and> initialize p = Some True \<and> is_available p = Some True"

text \<open>
  \<^verbatim>\<open>self._integrations: dict[str, IntegrationProtocol]\<close>. A Python dict keeps its keys
  in insertion order, so the table is an association list: \<^verbatim>\<open>d[k] = v\<close> is
  \<open>AList.update\<close> (in place for a present key, appended for a new one), \<^verbatim>\<open>del d[k]\<close>
  is \<open>AList.delete\<close>, \<^verbatim>\<open>k in d\<close> is membership among the first components.
\<close>

type_synonym registry = "(string \<times> pyobj) list"

definition registry_init :: registry where
  "registry_init = []"

definition is_registered :: "registry \<Rightarrow> string \<Rightarrow> bool" where
  "is_registered reg n \<longleftrightarrow> n \<in> fst ` set reg"

text \<open>
  \<^verbatim>\<open>register\<close> reads \<^verbatim>\<open>integration.name\<close> first (an object without the attribute
  raises AttributeError there), then tests membership and either raises QuackError or
  stores the instance. The table is returned next to the outcome, so that what a raise
  leaves behind is part of the result.
\<close>

definition register :: "registry \<Rightarrow> pyobj \<Rightarrow> (exc + unit) \<times> registry" where
  "register reg integration =
     (case name integration of
        None \<Rightarrow> (Inl AttributeError, reg)
      | Some integration_name \<Rightarrow>
          if integration_name \<in> fst ` set reg
          then (Inl (QuackError AlreadyRegistered integration_name None), reg)
          else (Inr (), AList.update integration_name integration reg))"

definition unregister :: "registry \<Rightarrow> string \<Rightarrow> bool \<times> registry" where
  "unregister reg n =
     (if n \<in> fst ` set reg then (True, AList.delete n reg) else (False, reg))"

definition get_integration :: "registry \<Rightarrow> string \<Rightarrow> pyobj option" where
  "get_integration reg n = map_of reg n"

text \<open>
  \<^verbatim>\<open>get_integration_by_type\<close> is a generator over \<^verbatim>\<open>self._integrations.values()\<close>;
  the type it tests with \<^verbatim>\<open>isinstance\<close> is the predicate \<open>integration_type\<close>. The
  list is what the generator yields when it is run to its end.
\<close>

definition get_integration_by_type :: "registry \<Rightarrow> (pyobj \<Rightarrow> bool) \<Rightarrow> pyobj list" where
  "get_integration_by_type reg integration_type =
     [integration \<leftarrow> map snd reg. integration_type integration]"

definition list_integrations :: "registry \<Rightarrow> string list" where
  "list_integrations reg = map fst reg"

text \<open>
  A caller that registers a sequence of instances one after the other; the first raise
  ends the sequence, as an uncaught exception ends the caller.
\<close>

fun register_all :: "registry \<Rightarrow> pyobj list \<Rightarrow> (exc + unit) \<times> registry" where
  "register_all reg [] = (Inr (), reg)"
| "register_all reg (integration # rest) =
     (case register reg integration of
        (Inl err, reg') \<Rightarrow> (Inl err, reg')
      | (Inr _, reg') \<Rightarrow> register_all reg' rest)"

text \<open>
  The tables that \<open>register\<close> and \<open>unregister\<close> build from the empty one: no name
  occurs twice, and every instance is stored under the name it carries.
\<close>

definition registry_wf :: "registry \<Rightarrow> bool" where
  "registry_wf reg \<longleftrightarrow>
     distinct (map fst reg) \<and> (\<forall>(k, v) \<in> set reg. name v = Some k)"

section \<open>The host environment\<close>

text \<open>
  What a module attribute, an entry point's \<^verbatim>\<open>load()\<close> or a factory can be: a
  function (calling it returns an object or raises), a class (calling it instantiates),
  or any other, non-callable value. A class carries its \<^verbatim>\<open>__module__\<close> and whether
  it is the \<^verbatim>\<open>IntegrationProtocol\<close> class itself. Calls have no effect on the
  registry table.
\<close>

datatype pyclass =
  PyClass (dunder_module: "string option") (is_IntegrationProtocol: bool)
          (construct: "exc + pyobj")

datatype pyvalue = Function "exc + pyobj" | Class pyclass | Plain

fun callable :: "pyvalue \<Rightarrow> bool" where
  "callable (Function _) = True"
| "callable (Class _) = True"
| "callable Plain = False"

fun call :: "pyvalue \<Rightarrow> exc + pyobj" where
  "call (Function r) = r"
| "call (Class c) = construct c"
| "call Plain = Inl TypeError"

type_synonym plugin_loader = "string \<Rightarrow> exc + pyobj"

text \<open>
  A module object: \<^verbatim>\<open>__name__\<close>, the attributes the registry asks for by name
  (\<^verbatim>\<open>create_integration\<close>, \<^verbatim>\<open>TestIntegration\<close>, \<^verbatim>\<open>loader\<close>; \<open>None\<close> when
  \<^verbatim>\<open>hasattr\<close> is false), and \<^verbatim>\<open>dir(module)\<close> as the list of attribute names, each
  with what \<^verbatim>\<open>getattr\<close> gives for it (a value, or an exception).
\<close>

record pymodule =
  dunder_name :: "string option"
  create_integration :: "pyvalue option"
  TestIntegration :: "pyvalue option"
  dir_module :: "(string \<times> (exc + pyvalue)) list"
  loader :: "plugin_loader option"

record entry_point =
  ep_name :: string
  ep_value :: string
  ep_load :: "exc + pyvalue"

text \<open>
  The interpreter as the registry sees it during one call: \<^verbatim>\<open>sys.modules\<close> (absent
  when the attribute is patched away), \<^verbatim>\<open>importlib.import_module\<close> and
  \<^verbatim>\<open>importlib.metadata.entry_points\<close>. It is a snapshot: an import within a call does
  not change what a later lookup of the same call finds.
\<close>

record host =
  sys_modules :: "(string \<rightharpoonup> pymodule) option"
  import_module :: "string \<Rightarrow> exc + pymodule"
  entry_points :: "string \<Rightarrow> exc + entry_point list"

definition get_plugin_loader :: "host \<Rightarrow> plugin_loader option" where
  "get_plugin_loader h =
     (let module_name = ''quackcore.plugins.discovery'' in
      case sys_modules h of
        None \<Rightarrow> None
      | Some modules_dict \<Rightarrow>
          (case (case modules_dict module_name of
                   Some discovery_module \<Rightarrow> loader discovery_module
                 | None \<Rightarrow> None) of
             Some l \<Rightarrow> Some l
           | None \<Rightarrow>
               (case import_module h module_name of
                  Inr discovery_module \<Rightarrow> loader discovery_module
                | Inl e \<Rightarrow> None)))"

definition get_entry_points :: "host \<Rightarrow> string \<Rightarrow> entry_point list" where
  "get_entry_points h group_name =
     (case entry_points h group_name of Inr eps \<Rightarrow> eps | Inl e \<Rightarrow> [])"

section \<open>Discovery strategies\<close>

text \<open>
  \<^verbatim>\<open>_load_integration_from_entry\<close>. The class \<^verbatim>\<open>IntegrationProtocol\<close> is imported
  from \<^verbatim>\<open>quackcore.integrations.protocols\<close>, which is not among the sources, so the
  test \<^verbatim>\<open>isinstance(x, IntegrationProtocol)\<close> is the parameter \<open>is_protocol\<close>. The
  inner handler catches ImportError and AttributeError of the plugin loader and falls
  back to \<^verbatim>\<open>entry.load()\<close>; every other exception, of the plugin loader, of
  \<^verbatim>\<open>load()\<close> or of the factory, reaches one of the outer handlers, which log and
  let the function return None.
\<close>

definition load_integration_from_entry ::
  "(pyobj \<Rightarrow> bool) \<Rightarrow> entry_point \<Rightarrow> plugin_loader option \<Rightarrow> pyobj option" where
  "load_integration_from_entry is_protocol entry pl =
     (let via_plugin_loader =
        (case pl of
           None \<Rightarrow> Inr None
         | Some load_plugin \<Rightarrow>
             (case load_plugin (ep_value entry) of
                Inr plugin \<Rightarrow> if is_protocol plugin then Inr (Some plugin) else Inr None
              | Inl e \<Rightarrow> if e = ImportError \<or> e = AttributeError then Inr None else Inl e))
      in case via_plugin_loader of
           Inl e \<Rightarrow> None
         | Inr (Some plugin) \<Rightarrow> Some plugin
         | Inr None \<Rightarrow>
             (case ep_load entry of
                Inl e \<Rightarrow> None
              | Inr factory \<Rightarrow>
                  if callable factory
                  then (case call factory of
                          Inl e \<Rightarrow> None
                        | Inr integration \<Rightarrow>
                            if is_protocol integration then Some integration else None)
                  else None))"

text \<open>
  \<^verbatim>\<open>_load_integration_with_plugin_loader\<close>. Its handlers name ImportError,
  AttributeError, TypeError and ValueError; any other exception of the plugin loader
  leaves the function, hence the sum in the result.
\<close>

definition load_integration_with_plugin_loader ::
  "string \<Rightarrow> plugin_loader option \<Rightarrow> exc + pyobj option" where
  "load_integration_with_plugin_loader module_path pl =
     (case pl of
        None \<Rightarrow> Inr None
      | Some load_plugin \<Rightarrow>
          (case load_plugin module_path of
             Inr plugin \<Rightarrow>
               if hasattr (name plugin) \<and> hasattr (version plugin)
                  \<and> hasattr (initialize plugin) \<and> hasattr (is_available plugin)
                  \<and> callable_attr (initialize plugin) \<and> callable_attr (is_available plugin)
               then Inr (Some plugin) else Inr None
           | Inl e \<Rightarrow>
               if e = ImportError \<or> e = AttributeError then Inr None
               else if e = TypeError \<or> e = ValueError then Inr None
               else Inl e))"

text \<open>\<^verbatim>\<open>_load_integration_from_factory\<close>: the last handler catches every exception.\<close>

definition load_integration_from_factory :: "pymodule \<Rightarrow> pyobj option" where
  "load_integration_from_factory m =
     (case create_integration m of
        None \<Rightarrow> None
      | Some create_func \<Rightarrow>
          if callable create_func
          then (case call create_func of
                  Inl e \<Rightarrow> None
                | Inr integration \<Rightarrow>
                    if hasattr (name integration) \<and> hasattr (version integration)
                       \<and> hasattr (initialize integration) \<and> hasattr (is_available integration)
                       \<and> callable_attr (initialize integration)
                       \<and> callable_attr (is_available integration)
                    then Some integration else None)
          else None)"

text \<open>
  \<^verbatim>\<open>_load_integrations_from_module\<close>, in its two parts. First the attribute
  \<^verbatim>\<open>TestIntegration\<close>: if it is a class, it is instantiated and the instance is kept
  when the four attributes are present (the source tests nothing else here).
\<close>

definition test_integration_instances :: "pymodule \<Rightarrow> pyobj list" where
  "test_integration_instances m =
     (case TestIntegration m of
        None \<Rightarrow> []
      | Some attr \<Rightarrow>
          (case attr of
             Class c \<Rightarrow>
               (case construct c of
                  Inl e \<Rightarrow> []
                | Inr instance \<Rightarrow>
                    if hasattr (name instance) \<and> hasattr (version instance)
                       \<and> hasattr (initialize instance) \<and> hasattr (is_available instance)
                    then [instance] else [])
           | _ \<Rightarrow> []))"

text \<open>
  Then the loop over \<^verbatim>\<open>dir(module)\<close>. \<open>scan_attribute\<close> is one turn of the loop
  body, giving what the turn appends to \<^verbatim>\<open>integrations\<close>: nothing for a name that
  starts with an underscore or is \<^verbatim>\<open>TestIntegration\<close>, for an attribute that cannot
  be read, for anything but a class defined in this module, for the protocol class, for
  a constructor that raises, and for an instance that fails the check.
\<close>

definition startswith_underscore :: "string \<Rightarrow> bool" where
  "startswith_underscore s = (case s of [] \<Rightarrow> False | c # _ \<Rightarrow> c = CHR ''_'')"

definition scan_attribute :: "pymodule \<Rightarrow> string \<times> (exc + pyvalue) \<Rightarrow> pyobj list" where
  "scan_attribute m d =
     (case d of (attr_name, got) \<Rightarrow>
        if startswith_underscore attr_name \<or> attr_name = ''TestIntegration'' then []
        else (case got of
                Inl e \<Rightarrow> []
              | Inr attr \<Rightarrow>
                  (case attr of
                     Class c \<Rightarrow>
                       if hasattr (dunder_module c)
                          \<and> dunder_module c
                              = Some (case dunder_name m of Some n \<Rightarrow> n | None \<Rightarrow> [])
                          \<and> \<not> is_IntegrationProtocol c
                       then (case construct c of
                               Inl e \<Rightarrow> []
                             | Inr instance \<Rightarrow>
                                 if hasattr (name instance) \<and> hasattr (version instance)
                                    \<and> hasattr (initialize instance)
                                    \<and> hasattr (is_available instance)
                                    \<and> callable_attr (initialize instance)
                                    \<and> callable_attr (is_available instance)
                                 then [instance] else [])
                       else []
                   | _ \<Rightarrow> [])))"

fun scan_loop ::
  "pymodule \<Rightarrow> (string \<times> (exc + pyvalue)) list \<Rightarrow> pyobj list \<Rightarrow> pyobj list" where
  "scan_loop m [] integrations = integrations"
| "scan_loop m (d # ds) integrations = scan_loop m ds (integrations @ scan_attribute m d)"

definition load_integrations_from_module :: "pymodule \<Rightarrow> pyobj list" where
  "load_integrations_from_module m =
     scan_loop m (dir_module m) (test_integration_instances m)"

section \<open>Discovery and module loading\<close>



text \<open>
  The module lookup of \<^verbatim>\<open>load_integration_module\<close> (the \<^verbatim>\<open>try\<close> after "Fallback
  to manual module loading"): a module found in \<^verbatim>\<open>sys.modules\<close> is taken,
  otherwise the path is imported. An ImportError becomes a QuackError inside the inner
  handler; the outer handler catches every exception, that QuackError included, and
  raises the QuackError "Error accessing module" with the caught one as its cause.
  With \<^verbatim>\<open>sys.modules\<close> absent, \<^verbatim>\<open>getattr(sys, "modules", {})\<close> is the empty dict.
\<close>

definition resolve_module :: "host \<Rightarrow> string \<Rightarrow> exc + pymodule" where
  "resolve_module h module_path =
     (let modules_dict = (case sys_modules h of Some d \<Rightarrow> d | None \<Rightarrow> Map.empty) in
      case modules_dict module_path of
        Some m \<Rightarrow> Inr m
      | None \<Rightarrow>
          (case import_module h module_path of
             Inr m \<Rightarrow> Inr m
           | Inl e \<Rightarrow>
               (let raised =
                  (if e = ImportError then QuackError FailedImport module_path (Some e) else e)
                in Inl (QuackError ErrorAccessing module_path (Some raised)))))"

text \<open>
  The last loop of \<^verbatim>\<open>load_integration_module\<close>: every scanned instance is
  registered under \<^verbatim>\<open>except QuackError\<close>.
\<close>

fun register_scanned ::
  "pyobj list \<Rightarrow> pyobj list \<Rightarrow> registry \<Rightarrow> (exc + pyobj list) \<times> registry" where
  "register_scanned [] loaded_integrations reg = (Inr loaded_integrations, reg)"
| "register_scanned (integ # rest) loaded_integrations reg =
     (case register reg integ of
        (Inr _, reg') \<Rightarrow> register_scanned rest (loaded_integrations @ [integ]) reg'
      | (Inl err, reg') \<Rightarrow>
          if is_QuackError err then register_scanned rest loaded_integrations reg'
          else (Inl err, reg'))"

text \<open>
  \<^verbatim>\<open>load_integration_module\<close> from "Try to load using a factory function" to its
  end, for the module that the lookup gave.
\<close>

definition load_from_module ::
  "pymodule \<Rightarrow> pyobj list \<Rightarrow> registry \<Rightarrow> (exc + pyobj list) \<times> registry" where
  "load_from_module m loaded_integrations reg =
     (let scan = (\<lambda>reg1. register_scanned (load_integrations_from_module m)
                            loaded_integrations reg1) in
      case load_integration_from_factory m of
        None \<Rightarrow> scan reg
      | Some integration \<Rightarrow>
          (case register reg integration of
             (Inr _, reg') \<Rightarrow> (Inr (loaded_integrations @ [integration]), reg')
           | (Inl err, reg') \<Rightarrow>
               if is_QuackError err then scan reg' else (Inl err, reg')))"

text \<open>
  \<^verbatim>\<open>load_integration_module\<close> from "Fallback to manual module loading" to its end.
\<close>

definition manual_module_loading ::
  "host \<Rightarrow> string \<Rightarrow> pyobj list \<Rightarrow> registry \<Rightarrow> (exc + pyobj list) \<times> registry" where
  "manual_module_loading h module_path loaded_integrations reg =
     (case resolve_module h module_path of
        Inl err \<Rightarrow> (Inl err, reg)
      | Inr m \<Rightarrow> load_from_module m loaded_integrations reg)"

text \<open>
  \<^verbatim>\<open>load_integration_module\<close>. The call of
  \<^verbatim>\<open>_load_integration_with_plugin_loader\<close> is outside every \<^verbatim>\<open>try\<close>, so an
  exception it lets through leaves the method. Its instance is registered under
  \<^verbatim>\<open>except QuackError\<close>: on success the method returns, on a QuackError it logs and
  goes on to the manual loading.
\<close>

definition load_integration_module ::
  "host \<Rightarrow> string \<Rightarrow> registry \<Rightarrow> (exc + pyobj list) \<times> registry" where
  "load_integration_module h module_path reg =
     (let loaded_integrations = [];
          plugin_loader = get_plugin_loader h
      in case plugin_loader of
           None \<Rightarrow> manual_module_loading h module_path loaded_integrations reg
         | Some load_plugin \<Rightarrow>
             (case load_integration_with_plugin_loader module_path (Some load_plugin) of
                Inl err \<Rightarrow> (Inl err, reg)
              | Inr None \<Rightarrow> manual_module_loading h module_path loaded_integrations reg
              | Inr (Some integration) \<Rightarrow>
                  (case register reg integration of
                     (Inr _, reg') \<Rightarrow> (Inr (loaded_integrations @ [integration]), reg')
                   | (Inl err, reg') \<Rightarrow>
                       if is_QuackError err
                       then manual_module_loading h module_path loaded_integrations reg'
                       else (Inl err, reg'))))"

section \<open>What a module offers\<close>

text \<open>
  The objects that the strategies of \<^verbatim>\<open>load_integration_module\<close> obtain from a
  module, before any of them is checked: what the \<^verbatim>\<open>create_integration\<close> factory
  returns, the instance of the \<^verbatim>\<open>TestIntegration\<close> class, and the instances of the
  module's own classes (public attributes that are classes defined in the module, other
  than the protocol class), in \<^verbatim>\<open>dir\<close> order.
\<close>

definition factory_result :: "pymodule \<Rightarrow> pyobj option" where
  "factory_result m =
     (case create_integration m of
        None \<Rightarrow> None
      | Some create_func \<Rightarrow>
          if callable create_func
          then (case call create_func of Inl e \<Rightarrow> None | Inr x \<Rightarrow> Some x)
          else None)"

definition test_instance :: "pymodule \<Rightarrow> pyobj option" where
  "test_instance m =
     (case TestIntegration m of
        Some (Class c) \<Rightarrow> (case construct c of Inl e \<Rightarrow> None | Inr x \<Rightarrow> Some x)
      | _ \<Rightarrow> None)"

definition own_class_instance :: "pymodule \<Rightarrow> string \<times> (exc + pyvalue) \<Rightarrow> pyobj option" where
  "own_class_instance m d =
     (case d of
        (attr_name, Inr (Class c)) \<Rightarrow>
          if \<not> startswith_underscore attr_name \<and> attr_name \<noteq> ''TestIntegration''
             \<and> dunder_module c = Some (case dunder_name m of Some n \<Rightarrow> n | None \<Rightarrow> [])
             \<and> \<not> is_IntegrationProtocol c
          then (case construct c of Inl e \<Rightarrow> None | Inr x \<Rightarrow> Some x)
          else None
      | _ \<Rightarrow> None)"

definition own_class_instances :: "pymodule \<Rightarrow> pyobj list" where
  "own_class_instances m = List.map_filter (own_class_instance m) (dir_module m)"

definition has_four_attributes :: "pyobj \<Rightarrow> bool" where
  "has_four_attributes p \<longleftrightarrow>
     name p \<noteq> None \<and> version p \<noteq> None \<and> initialize p \<noteq> None \<and> is_available p \<noteq> None"

text \<open>
  The identifier cannot be resolved: it is not a key of \<^verbatim>\<open>sys.modules\<close> and
  importing it raises. The module-load error is the QuackError that the lookup raises
  then.
\<close>

definition unresolvable :: "host \<Rightarrow> string \<Rightarrow> bool" where
  "unresolvable h module_path \<longleftrightarrow>
     (case sys_modules h of Some d \<Rightarrow> d module_path = None | None \<Rightarrow> True)
     \<and> isl (import_module h module_path)"

fun is_module_load_error :: "exc + 'a \<Rightarrow> bool" where
  "is_module_load_error (Inl (QuackError ErrorAccessing _ _)) = True"
| "is_module_load_error _ = False"

fun is_duplicate_error :: "exc + 'a \<Rightarrow> bool" where
  "is_duplicate_error (Inl (QuackError AlreadyRegistered _ _)) = True"
| "is_duplicate_error _ = False"

section \<open>Conditions of the claims\<close>




text \<open>
  For an entry point, the plugin loader gives way to \<^verbatim>\<open>entry.load()\<close>: there is no
  plugin loader, or its object is not accepted, or it raises ImportError or
  AttributeError.
\<close>

definition entry_falls_back ::
  "(pyobj \<Rightarrow> bool) \<Rightarrow> entry_point \<Rightarrow> plugin_loader option \<Rightarrow> bool" where
  "entry_falls_back is_protocol e pl =
     (case pl of
        None \<Rightarrow> True
      | Some lp \<Rightarrow>
          (case lp (ep_value e) of
             Inr y \<Rightarrow> \<not> is_protocol y
           | Inl err \<Rightarrow> err = ImportError \<or> err = AttributeError))"

section \<open>The provider registry\<close>

text \<open>
  Modelled from the spec: the provider registry \<^verbatim>\<open>quackcore/integrations/llms/registry.py\<close>
  (\<^verbatim>\<open>_LLM_REGISTRY\<close>, \<^verbatim>\<open>get_llm_client\<close>, \<^verbatim>\<open>register_llm_client\<close>) is not among the
  sources; only its tests are. The Provider Table maps a provider name to a constructor
  that takes the option bundle and returns a client or fails. \<open>resolve\<close> lowercases
  the name before the lookup; on a miss it fails with the unsupported-provider error,
  whose message enumerates the registered names (the test asserts the fragments
  "Unsupported LLM provider: " followed by the name, and "Registered providers"); on a
  match it invokes the constructor, and a failure of the constructor is re-raised as the
  construction error wrapping the cause. \<open>register_provider\<close> stores under the
  lowercased name and overwrites. Names are ASCII.
\<close>

definition lower_char :: "char \<Rightarrow> char" where
  "lower_char c =
     (let n = (of_char c :: nat) in if 65 \<le> n \<and> n \<le> 90 then char_of (n + 32) else c)"

definition lower :: "string \<Rightarrow> string" where
  "lower s = map lower_char s"

fun join :: "string \<Rightarrow> string list \<Rightarrow> string" where
  "join sep [] = []"
| "join sep [x] = x"
| "join sep (x # y # ys) = x @ sep @ join sep (y # ys)"

datatype provider_error =
    UnsupportedProviderError string
  | ProviderConstructionError exc

type_synonym ('o, 'c) provider_table = "(string \<times> ('o \<Rightarrow> exc + 'c)) list"

definition unsupported_message :: "string \<Rightarrow> string list \<Rightarrow> string" where
  "unsupported_message provider_name registered =
     ''Unsupported LLM provider: '' @ provider_name
       @ ''. Registered providers: '' @ join '', '' registered"

definition resolve ::
  "('o, 'c) provider_table \<Rightarrow> string \<Rightarrow> 'o \<Rightarrow> provider_error + 'c" where
  "resolve table provider_name construction_options =
     (let provider_lower = lower provider_name in
      case map_of table provider_lower of
        None \<Rightarrow> Inl (UnsupportedProviderError
                       (unsupported_message provider_name (map fst table)))
      | Some constructor \<Rightarrow>
          (case constructor construction_options of
             Inl cause \<Rightarrow> Inl (ProviderConstructionError cause)
           | Inr client \<Rightarrow> Inr client))"

definition register_provider ::
  "string \<Rightarrow> ('o \<Rightarrow> exc + 'c) \<Rightarrow> ('o, 'c) provider_table \<Rightarrow> ('o, 'c) provider_table" where
  "register_provider provider_name constructor table =
     AList.update (lower provider_name) constructor table"

text \<open>
  The pass-through test provider of the specification: its option bundle is the script
  of canned responses, and the client it builds holds that script.
\<close>

datatype mock_client = MockLLMClient (script: "string list")

definition mock_constructor :: "string list \<Rightarrow> exc + mock_client" where
  "mock_constructor s = Inr (MockLLMClient s)"

section \<open>Example objects\<close>

text \<open>An instance with all four attributes, both methods callable.\<close>

definition integration_instance :: "nat \<Rightarrow> string \<Rightarrow> pyobj" where
  "integration_instance i n =
     \<lparr>ident = i, name = Some n, version = Some ''1.0'',
      initialize = Some True, is_available = Some True\<rparr>"

text \<open>An object with none of the attributes.\<close>

definition bare_object :: "nat \<Rightarrow> pyobj" where
  "bare_object i =
     \<lparr>ident = i, name = None, version = None, initialize = None, is_available = None\<rparr>"

text \<open>An instance whose \<open>initialize\<close> attribute is present but is not callable.\<close>

definition data_only_instance :: "nat \<Rightarrow> string \<Rightarrow> pyobj" where
  "data_only_instance i n =
     \<lparr>ident = i, name = Some n, version = Some ''1.0'',
      initialize = Some False, is_available = Some True\<rparr>"

text \<open>A module without attributes, and a class defined in a module of the given name.\<close>

definition empty_module :: "string \<Rightarrow> pymodule" where
  "empty_module n =
     \<lparr>dunder_name = Some n, create_integration = None, TestIntegration = None,
      dir_module = [], loader = None\<rparr>"

definition local_class :: "string \<Rightarrow> pyobj \<Rightarrow> pyvalue" where
  "local_class module_name instance = Class (PyClass (Some module_name) False (Inr instance))"

text \<open>
  A host built from a plugin loader (published, if any, as the \<^verbatim>\<open>loader\<close> of the
  module \<^verbatim>\<open>quackcore.plugins.discovery\<close>), the loaded modules and the entry points of
  the group \<^verbatim>\<open>quackcore.integrations\<close>; nothing else can be imported.
\<close>

definition discovery_module :: "plugin_loader \<Rightarrow> pymodule" where
  "discovery_module lp =
     \<lparr>dunder_name = Some ''quackcore.plugins.discovery'', create_integration = None,
      TestIntegration = None, dir_module = [], loader = Some lp\<rparr>"

definition host_with ::
  "plugin_loader option \<Rightarrow> (string \<times> pymodule) list \<Rightarrow> entry_point list \<Rightarrow> host" where
  "host_with pl mods eps =
     \<lparr>sys_modules =
        Some (map_of ((case pl of
                         Some lp \<Rightarrow> [(''quackcore.plugins.discovery'', discovery_module lp)]
                       | None \<Rightarrow> []) @ mods)),
      import_module = (\<lambda>p. Inl ImportError),
      entry_points = (\<lambda>g. if g = ''quackcore.integrations'' then Inr eps else Inr [])\<rparr>"




text \<open>
  A plugin loader that knows one identifier; a module with a factory; a module with two
  own classes; a module whose \<^verbatim>\<open>TestIntegration\<close> class gives an instance with a
  non-callable \<open>initialize\<close>.
\<close>

definition alpha_loader :: plugin_loader where
  "alpha_loader identifier =
     (if identifier = ''pkg.mod'' then Inr (integration_instance 1 ''alpha'') else Inl ImportError)"

definition factory_module :: pymodule where
  "factory_module =
     \<lparr>dunder_name = Some ''pkg.mod'',
      create_integration = Some (Function (Inr (integration_instance 2 ''beta''))),
      TestIntegration = None,
      dir_module = [(''__name__'', Inr Plain),
                    (''create_integration'', Inr (Function (Inr (integration_instance 2 ''beta''))))],
      loader = None\<rparr>"

definition two_class_module :: pymodule where
  "two_class_module =
     \<lparr>dunder_name = Some ''pkg.two'', create_integration = None, TestIntegration = None,
      dir_module = [(''First'', Inr (local_class ''pkg.two'' (integration_instance 3 ''first''))),
                    (''Second'', Inr (local_class ''pkg.two'' (integration_instance 4 ''second''))),
                    (''__name__'', Inr Plain)],
      loader = None\<rparr>"

definition test_fixture_module :: pymodule where
  "test_fixture_module =
     \<lparr>dunder_name = Some ''pkg.fix'', create_integration = None,
      TestIntegration = Some (local_class ''pkg.fix'' (data_only_instance 5 ''fixture'')),
      dir_module = [(''TestIntegration'',
                     Inr (local_class ''pkg.fix'' (data_only_instance 5 ''fixture''))),
                    (''__name__'', Inr Plain)],
      loader = None\<rparr>"


text \<open>A provider whose constructor rejects an empty option bundle.\<close>

definition strict_constructor :: "string list \<Rightarrow> exc + mock_client" where
  "strict_constructor s = (if s = [] then Inl ValueError else Inr (MockLLMClient s))"

section \<open>Registration and removal\<close>

text \<open>
  C1. For every registry table and every instance whose name is already a key of the
  table, \<open>register\<close> raises the duplicate-registration QuackError and the table it
  leaves is the table it found.
\<close>

theorem register_duplicate_raises_unchanged:
  assumes "name integration = Some n" and "n \<in> fst ` set reg"
  shows "register reg integration = (Inl (QuackError AlreadyRegistered n None), reg)"
  using assms by (simp add: register_def)

theorem register_duplicate_raises_unchanged_witness:
  "name (integration_instance 2 ''gmail'') = Some ''gmail''
   \<and> ''gmail'' \<in> fst ` set [(''gmail'', integration_instance 1 ''gmail'')]
   \<and> register [(''gmail'', integration_instance 1 ''gmail'')] (integration_instance 2 ''gmail'')
       = (Inl (QuackError AlreadyRegistered ''gmail'' None),
          [(''gmail'', integration_instance 1 ''gmail'')])"
proof -
  have h1: "name (integration_instance 2 ''gmail'') = Some ''gmail''"
    by (simp add: integration_instance_def)
  have h2: "''gmail'' \<in> fst ` set [(''gmail'', integration_instance 1 ''gmail'')]"
    by simp
  show ?thesis using register_duplicate_raises_unchanged [OF h1 h2] h1 h2 by simp
qed

subsection \<open>Facts about the table\<close>

lemma update_fresh: "k \<notin> fst ` set al \<Longrightarrow> AList.update k v al = al @ [(k, v)]"
  by (induction al) auto

lemma register_fresh:
  "name x = Some n \<Longrightarrow> n \<notin> fst ` set reg \<Longrightarrow> register reg x = (Inr (), reg @ [(n, x)])"
  by (simp add: register_def update_fresh)

lemma register_present:
  "name x = Some n \<Longrightarrow> n \<in> fst ` set reg
   \<Longrightarrow> register reg x = (Inl (QuackError AlreadyRegistered n None), reg)"
  by (simp add: register_def)

lemma register_nameless: "name x = None \<Longrightarrow> register reg x = (Inl AttributeError, reg)"
  by (simp add: register_def)

lemma registry_wf_init: "registry_wf registry_init"
  by (simp add: registry_wf_def registry_init_def)

lemma registry_wf_register:
  assumes "registry_wf reg" and "register reg x = (r, reg')"
  shows "registry_wf reg'"
proof (cases "name x")
  case None
  with assms show ?thesis by (simp add: register_nameless)
next
  case (Some n)
  show ?thesis
  proof (cases "n \<in> fst ` set reg")
    case True
    with Some assms show ?thesis by (simp add: register_present)
  next
    case False
    with Some assms(2) have "reg' = reg @ [(n, x)]" by (simp add: register_fresh)
    with assms(1) False Some show ?thesis by (auto simp: registry_wf_def)
  qed
qed

lemma registry_wf_unregister:
  assumes "registry_wf reg" and "unregister reg n = (b, reg')"
  shows "registry_wf reg'"
proof -
  have "reg' = reg \<or> reg' = AList.delete n reg"
    using assms(2) by (auto simp: unregister_def split: if_splits)
  then show ?thesis
    using assms(1) by (auto simp: registry_wf_def AList.delete_eq distinct_map_filter)
qed

lemma length_delete_distinct:
  "distinct (map fst al) \<Longrightarrow> k \<in> fst ` set al
   \<Longrightarrow> length (AList.delete k al) + 1 = length al"
proof (induction al)
  case Nil
  then show ?case by simp
next
  case (Cons p ps)
  show ?case
  proof (cases "fst p = k")
    case True
    with Cons.prems(1) have "k \<notin> fst ` set ps" by auto
    then have "AList.delete k ps = ps" by (simp add: delete_id)
    with True show ?thesis by (simp add: AList.delete_eq case_prod_beta)
  next
    case False
    with Cons show ?thesis by (auto simp: AList.delete_eq case_prod_beta)
  qed
qed

lemma registry_wf_values_distinct:
  assumes "registry_wf reg"
  shows "distinct (map snd reg)"
proof -
  have d: "distinct reg" using assms by (simp add: registry_wf_def distinct_map)
  have "inj_on snd (set reg)"
  proof (rule inj_onI)
    fix p q assume a: "p \<in> set reg" "q \<in> set reg" "snd p = snd q"
    from assms a(1) have "name (snd p) = Some (fst p)" by (auto simp: registry_wf_def)
    moreover from assms a(2) have "name (snd q) = Some (fst q)" by (auto simp: registry_wf_def)
    ultimately have "fst p = fst q" using a(3) by simp
    with a(3) show "p = q" by (simp add: prod_eq_iff)
  qed
  with d show ?thesis by (simp add: distinct_map)
qed

lemma register_all_fresh:
  "\<forall>x \<in> set xs. name x \<noteq> None \<and> the (name x) \<notin> fst ` set reg
   \<Longrightarrow> distinct (map name xs)
   \<Longrightarrow> register_all reg xs = (Inr (), reg @ map (\<lambda>x. (the (name x), x)) xs)"
proof (induction xs arbitrary: reg)
  case Nil
  then show ?case by simp
next
  case (Cons x xs)
  from Cons.prems obtain n where n: "name x = Some n" "n \<notin> fst ` set reg" by auto
  have step: "register reg x = (Inr (), reg @ [(n, x)])" using n by (rule register_fresh)
  have fresh: "\<forall>y \<in> set xs. name y \<noteq> None \<and> the (name y) \<notin> fst ` set (reg @ [(n, x)])"
  proof
    fix y assume yin: "y \<in> set xs"
    with Cons.prems have a: "name y \<noteq> None" "the (name y) \<notin> fst ` set reg" by auto
    from Cons.prems(2) yin have "name y \<noteq> name x"
      by (metis distinct.simps(2) image_eqI list.set_map list.simps(9))
    with a n show "name y \<noteq> None \<and> the (name y) \<notin> fst ` set (reg @ [(n, x)])" by auto
  qed
  from Cons.prems(2) have d: "distinct (map name xs)" by simp
  show ?case using Cons.IH[OF fresh d] step n by simp
qed

subsection \<open>The claims about register, unregister, list and filter\<close>

text \<open>
  C7. \<open>unregister\<close> has no raising branch. For a registered name it returns true and
  the table without the entries of that name (one entry, in a table without repeated
  names): the name is no longer registered and every other name is looked up as before.
  For an absent name it returns false and the table it was given.
\<close>

theorem unregister_present_absent:
  "(n \<in> fst ` set reg \<longrightarrow>
      (\<exists>reg'. unregister reg n = (True, reg') \<and> \<not> is_registered reg' n
         \<and> reg' = [e \<leftarrow> reg. fst e \<noteq> n]
         \<and> (\<forall>m. m \<noteq> n \<longrightarrow> get_integration reg' m = get_integration reg m)
         \<and> (distinct (map fst reg) \<longrightarrow> length reg' + 1 = length reg)))
   \<and> (n \<notin> fst ` set reg \<longrightarrow> unregister reg n = (False, reg))"
proof (intro conjI impI)
  assume present: "n \<in> fst ` set reg"
  have f: "AList.delete n reg = [e \<leftarrow> reg. fst e \<noteq> n]"
    by (auto simp: AList.delete_eq intro: filter_cong)
  have a: "unregister reg n = (True, AList.delete n reg)"
    using present by (simp add: unregister_def)
  have b: "\<not> is_registered (AList.delete n reg) n"
    by (simp add: is_registered_def delete_notin_dom)
  have c: "\<forall>m. m \<noteq> n \<longrightarrow> get_integration (AList.delete n reg) m = get_integration reg m"
    by (simp add: get_integration_def delete_conv)
  have d: "distinct (map fst reg) \<longrightarrow> length (AList.delete n reg) + 1 = length reg"
    using present length_delete_distinct[of reg n] by blast
  show "\<exists>reg'. unregister reg n = (True, reg') \<and> \<not> is_registered reg' n
         \<and> reg' = [e \<leftarrow> reg. fst e \<noteq> n]
         \<and> (\<forall>m. m \<noteq> n \<longrightarrow> get_integration reg' m = get_integration reg m)
         \<and> (distinct (map fst reg) \<longrightarrow> length reg' + 1 = length reg)"
    using a b c d f by metis
next
  assume "n \<notin> fst ` set reg"
  then show "unregister reg n = (False, reg)" by (simp add: unregister_def)
qed

theorem unregister_present_absent_witness:
  "''a'' \<in> fst ` set [(''a'', integration_instance 1 ''a''), (''b'', integration_instance 2 ''b'')]
   \<and> unregister [(''a'', integration_instance 1 ''a''), (''b'', integration_instance 2 ''b'')] ''a''
       = (True, [(''b'', integration_instance 2 ''b'')])
   \<and> \<not> is_registered [(''b'', integration_instance 2 ''b'')] ''a''
   \<and> ''a'' \<notin> fst ` set [(''b'', integration_instance 2 ''b'')]
   \<and> unregister [(''b'', integration_instance 2 ''b'')] ''a''
       = (False, [(''b'', integration_instance 2 ''b'')])"
  using unregister_present_absent
          [of "''a''" "[(''a'', integration_instance 1 ''a''), (''b'', integration_instance 2 ''b'')]"]
        unregister_present_absent [of "''a''" "[(''b'', integration_instance 2 ''b'')]"]
  by (simp add: is_registered_def)

text \<open>
  C8. Registering, from the empty table, instances that carry pairwise distinct names
  raises nothing, and \<open>list_integrations\<close> then gives exactly their names, each once.
\<close>

theorem register_all_names:
  assumes "\<forall>x \<in> set xs. name x \<noteq> None" and "distinct (map name xs)"
  shows "\<exists>reg. register_all registry_init xs = (Inr (), reg)
           \<and> set (list_integrations reg) = {n. \<exists>x \<in> set xs. name x = Some n}
           \<and> distinct (list_integrations reg)
           \<and> length (list_integrations reg) = length xs"
proof -
  have r: "register_all registry_init xs = (Inr (), map (\<lambda>x. (the (name x), x)) xs)"
    using register_all_fresh[of xs "[]"] assms by (simp add: registry_init_def)
  have s: "set (map (\<lambda>x. the (name x)) xs) = {n. \<exists>x \<in> set xs. name x = Some n}"
    using assms(1) by force
  have inj: "inj_on (\<lambda>x. the (name x)) (set xs)"
  proof (rule inj_onI)
    fix x y assume a: "x \<in> set xs" "y \<in> set xs" "the (name x) = the (name y)"
    with assms(1) have "name x = name y" by (metis option.expand)
    with a assms(2) show "x = y" by (meson distinct_map inj_onD)
  qed
  have d: "distinct (map (\<lambda>x. the (name x)) xs)"
    using assms(2) inj by (simp add: distinct_map)
  show ?thesis using r s d by (simp add: list_integrations_def comp_def image_image)
qed

theorem register_all_names_witness:
  "name (integration_instance 1 ''a'') = Some ''a''
   \<and> name (integration_instance 2 ''b'') = Some ''b''
   \<and> name (integration_instance 3 ''c'') = Some ''c''
   \<and> distinct (map name [integration_instance 1 ''a'', integration_instance 2 ''b'',
                         integration_instance 3 ''c''])
   \<and> (\<exists>reg. register_all registry_init
               [integration_instance 1 ''a'', integration_instance 2 ''b'',
                integration_instance 3 ''c''] = (Inr (), reg)
          \<and> set (list_integrations reg) = {''a'', ''b'', ''c''}
          \<and> distinct (list_integrations reg))"
proof -
  have n: "name (integration_instance i s) = Some s" for i s
    by (simp add: integration_instance_def)
  have h1: "\<forall>x \<in> set [integration_instance 1 ''a'', integration_instance 2 ''b'',
               integration_instance 3 ''c'']. name x \<noteq> None"
    by (simp add: n)
  have h2: "distinct (map name [integration_instance 1 ''a'', integration_instance 2 ''b'',
                         integration_instance 3 ''c''])"
    by (simp add: n)
  have s: "{n. \<exists>x \<in> set [integration_instance 1 ''a'', integration_instance 2 ''b'',
               integration_instance 3 ''c'']. name x = Some n} = {''a'', ''b'', ''c''}"
    by (auto simp: n)
  show ?thesis using register_all_names[OF h1 h2] n h2 unfolding s by blast
qed

text \<open>
  C9. With a type that no stored instance has, \<open>get_integration_by_type\<close> yields
  nothing. With a type that every stored instance has, it yields the value of every
  entry of the table, one per entry and in table order; in a table built by
  \<open>register\<close> and \<open>unregister\<close> these are pairwise different instances, so each
  registered instance is yielded exactly once.
\<close>

theorem get_integration_by_type_none_all:
  "((\<forall>v \<in> snd ` set reg. \<not> integration_type v)
      \<longrightarrow> get_integration_by_type reg integration_type = [])
   \<and> ((\<forall>v \<in> snd ` set reg. integration_type v)
      \<longrightarrow> get_integration_by_type reg integration_type = map snd reg
          \<and> length (get_integration_by_type reg integration_type)
              = length (list_integrations reg)
          \<and> (registry_wf reg
               \<longrightarrow> distinct (get_integration_by_type reg integration_type)
                   \<and> set (get_integration_by_type reg integration_type) = snd ` set reg))"
proof (intro conjI impI)
  assume "\<forall>v \<in> snd ` set reg. \<not> integration_type v"
  then show "get_integration_by_type reg integration_type = []"
    by (simp add: get_integration_by_type_def filter_empty_conv)
next
  assume all: "\<forall>v \<in> snd ` set reg. integration_type v"
  then show eq: "get_integration_by_type reg integration_type = map snd reg"
    by (simp add: get_integration_by_type_def)
  then show "length (get_integration_by_type reg integration_type)
              = length (list_integrations reg)"
    by (simp add: list_integrations_def)
  assume "registry_wf reg"
  then show "distinct (get_integration_by_type reg integration_type)"
    using eq by (simp add: registry_wf_values_distinct)
  show "set (get_integration_by_type reg integration_type) = snd ` set reg"
    using eq by simp
qed

theorem get_integration_by_type_none_all_witness:
  "get_integration_by_type
        [(''a'', integration_instance 1 ''a''), (''b'', integration_instance 2 ''b'')]
        (\<lambda>v. False) = []
   \<and> registry_wf [(''a'', integration_instance 1 ''a''), (''b'', integration_instance 2 ''b'')]
   \<and> get_integration_by_type
        [(''a'', integration_instance 1 ''a''), (''b'', integration_instance 2 ''b'')]
        (\<lambda>v. True) = [integration_instance 1 ''a'', integration_instance 2 ''b'']
   \<and> distinct (get_integration_by_type
        [(''a'', integration_instance 1 ''a''), (''b'', integration_instance 2 ''b'')]
        (\<lambda>v. True))"
proof -
  let ?reg = "[(''a'', integration_instance 1 ''a''), (''b'', integration_instance 2 ''b'')]"
  have wf: "registry_wf ?reg"
    by (simp add: registry_wf_def integration_instance_def)
  have none: "\<forall>v \<in> snd ` set ?reg. \<not> (\<lambda>v. False) v" by simp
  have all: "\<forall>v \<in> snd ` set ?reg. (\<lambda>v. True) v" by simp
  have a: "get_integration_by_type ?reg (\<lambda>v. False) = []"
    using get_integration_by_type_none_all [of ?reg "\<lambda>v. False"] none by blast
  have b: "get_integration_by_type ?reg (\<lambda>v. True) = map snd ?reg
           \<and> distinct (get_integration_by_type ?reg (\<lambda>v. True))"
    using get_integration_by_type_none_all [of ?reg "\<lambda>v. True"] all wf by blast
  show ?thesis using wf a b by (simp add: integration_instance_def)
qed

section \<open>Discovery from entry points\<close>


lemma register_scanned_named:
  "\<forall>x \<in> set xs. name x \<noteq> None \<Longrightarrow>
   \<exists>new. register_scanned xs acc reg = (Inr (acc @ new), reg @ map (\<lambda>x. (the (name x), x)) new)
        \<and> subseq new xs
        \<and> (\<forall>x \<in> set xs. the (name x) \<in> fst ` set (reg @ map (\<lambda>x. (the (name x), x)) new))"
proof (induction xs arbitrary: acc reg)
  case Nil
  then show ?case by simp
next
  case (Cons x xs)
  then obtain n where n: "name x = Some n" by auto
  from Cons.prems have rest: "\<forall>y \<in> set xs. name y \<noteq> None" by simp
  show ?case
  proof (cases "n \<in> fst ` set reg")
    case True
    then have step: "register reg x = (Inl (QuackError AlreadyRegistered n None), reg)"
      using n by (simp add: register_present)
    from Cons.IH[OF rest, of acc reg] obtain new where
      new: "register_scanned xs acc reg = (Inr (acc @ new), reg @ map (\<lambda>x. (the (name x), x)) new)"
        "subseq new xs"
        "\<forall>x \<in> set xs. the (name x) \<in> fst ` set (reg @ map (\<lambda>x. (the (name x), x)) new)"
      by blast
    have "register_scanned (x # xs) acc reg = (Inr (acc @ new), reg @ map (\<lambda>x. (the (name x), x)) new)"
      using step new(1) by simp
    moreover have "subseq new (x # xs)" using new(2) by (rule list_emb_Cons)
    moreover have "\<forall>y \<in> set (x # xs). the (name y) \<in> fst ` set (reg @ map (\<lambda>x. (the (name x), x)) new)"
      using new(3) True n by auto
    ultimately show ?thesis by blast
  next
    case False
    then have step: "register reg x = (Inr (), reg @ [(n, x)])"
      using n by (simp add: register_fresh)
    from Cons.IH[OF rest, of "acc @ [x]" "reg @ [(n, x)]"] obtain new where
      new: "register_scanned xs (acc @ [x]) (reg @ [(n, x)])
              = (Inr ((acc @ [x]) @ new), (reg @ [(n, x)]) @ map (\<lambda>x. (the (name x), x)) new)"
        "subseq new xs"
        "\<forall>y \<in> set xs. the (name y) \<in> fst ` set ((reg @ [(n, x)]) @ map (\<lambda>x. (the (name x), x)) new)"
      by blast
    have "register_scanned (x # xs) acc reg
            = (Inr (acc @ (x # new)), reg @ map (\<lambda>x. (the (name x), x)) (x # new))"
      using step new(1) n by simp
    moreover have "subseq (x # new) (x # xs)" using new(2) by simp
    moreover have "\<forall>y \<in> set (x # xs). the (name y) \<in> fst ` set (reg @ map (\<lambda>x. (the (name x), x)) (x # new))"
      using new(3) n by auto
    ultimately show ?thesis by blast
  qed
qed


section \<open>The checks of the strategies\<close>

lemma hasattr_callable_contract:
  "(hasattr (name p) \<and> hasattr (version p) \<and> hasattr (initialize p) \<and> hasattr (is_available p)
     \<and> callable_attr (initialize p) \<and> callable_attr (is_available p)) = satisfies_contract p"
  by (simp add: hasattr_def callable_attr_def satisfies_contract_def)

lemma hasattr_four:
  "(hasattr (name p) \<and> hasattr (version p) \<and> hasattr (initialize p) \<and> hasattr (is_available p))
     = has_four_attributes p"
  by (simp add: hasattr_def has_four_attributes_def)

lemma satisfies_contract_name: "satisfies_contract p \<Longrightarrow> name p \<noteq> None"
  by (simp add: satisfies_contract_def)

lemma has_four_attributes_name: "has_four_attributes p \<Longrightarrow> name p \<noteq> None"
  by (simp add: has_four_attributes_def)

lemma plugin_loader_strategy_eq:
  "load_integration_with_plugin_loader module_path (Some lp) =
     (case lp module_path of
        Inr x \<Rightarrow> Inr (if satisfies_contract x then Some x else None)
      | Inl e \<Rightarrow> if e \<in> {ImportError, AttributeError, TypeError, ValueError}
                 then Inr None else Inl e)"
  by (simp add: load_integration_with_plugin_loader_def hasattr_callable_contract
      split: sum.splits)

lemma factory_strategy_eq:
  "load_integration_from_factory m =
     (case factory_result m of
        Some x \<Rightarrow> if satisfies_contract x then Some x else None
      | None \<Rightarrow> None)"
  by (simp add: load_integration_from_factory_def factory_result_def hasattr_callable_contract
      split: option.splits sum.splits)

lemma test_integration_instances_eq:
  "test_integration_instances m =
     (case test_instance m of
        Some x \<Rightarrow> if has_four_attributes x then [x] else []
      | None \<Rightarrow> [])"
  by (simp add: test_integration_instances_def test_instance_def hasattr_four
      split: option.splits sum.splits pyvalue.splits)

lemma scan_attribute_eq:
  "scan_attribute m d =
     (case own_class_instance m d of
        Some x \<Rightarrow> if satisfies_contract x then [x] else []
      | None \<Rightarrow> [])"
  by (cases d)
     (auto simp: scan_attribute_def own_class_instance_def satisfies_contract_def
                 callable_attr_def hasattr_def
           split: option.splits sum.splits pyvalue.splits)

lemma scan_loop_eq:
  "scan_loop m ds acc = acc @ filter satisfies_contract (List.map_filter (own_class_instance m) ds)"
proof (induction ds arbitrary: acc)
  case Nil
  then show ?case by (simp add: List.map_filter_simps)
next
  case (Cons d ds)
  then show ?case
    by (simp add: scan_attribute_eq List.map_filter_simps split: option.splits)
qed

lemma module_scan_eq:
  "load_integrations_from_module m =
     test_integration_instances m @ filter satisfies_contract (own_class_instances m)"
  by (simp add: load_integrations_from_module_def scan_loop_eq own_class_instances_def)

lemma module_scan_named: "\<forall>x \<in> set (load_integrations_from_module m). name x \<noteq> None"
  by (auto simp: module_scan_eq test_integration_instances_eq
      dest: satisfies_contract_name has_four_attributes_name split: option.splits if_splits)

lemma load_from_module_returns:
  "\<exists>found new. load_from_module m acc reg
      = (Inr found, reg @ map (\<lambda>x. (the (name x), x)) new)"
proof (cases "load_integration_from_factory m")
  case None
  then show ?thesis
    using register_scanned_named[OF module_scan_named, of m acc reg]
    by (auto simp: load_from_module_def)
next
  case (Some x)
  then have "satisfies_contract x"
    by (auto simp: factory_strategy_eq split: option.splits if_splits)
  then obtain n where n: "name x = Some n" by (auto dest: satisfies_contract_name)
  show ?thesis
  proof (cases "n \<in> fst ` set reg")
    case True
    then show ?thesis
      using Some n register_scanned_named[OF module_scan_named, of m acc reg]
      by (auto simp: load_from_module_def register_present)
  next
    case False
    have "load_from_module m acc reg = (Inr (acc @ [x]), reg @ map (\<lambda>x. (the (name x), x)) [x])"
      using Some n False by (simp add: load_from_module_def register_fresh)
    then show ?thesis by blast
  qed
qed

section \<open>The claims about discovery and module loading\<close>

lemma get_plugin_loader_host_with_Some [simp]:
  "get_plugin_loader (host_with (Some lp) mods eps) = Some lp"
  by (simp add: get_plugin_loader_def host_with_def discovery_module_def)


lemma get_entry_points_host_with [simp]:
  "get_entry_points (host_with pl mods eps) ''quackcore.integrations'' = eps"
  by (simp add: get_entry_points_def host_with_def)



lemma resolve_module_cases:
  "(unresolvable h module_path
      \<and> (\<exists>c. resolve_module h module_path = Inl (QuackError ErrorAccessing module_path (Some c))))
   \<or> (\<not> unresolvable h module_path \<and> (\<exists>m. resolve_module h module_path = Inr m))"
  by (auto simp: resolve_module_def unresolvable_def Let_def isl_def
      split: option.splits sum.splits)

lemma plugin_strategy_None [simp]: "load_integration_with_plugin_loader module_path None = Inr None"
  by (simp add: load_integration_with_plugin_loader_def)


lemma load_integration_module_eq:
  "load_integration_module h module_path reg =
     (case load_integration_with_plugin_loader module_path (get_plugin_loader h) of
        Inl err \<Rightarrow> (Inl err, reg)
      | Inr None \<Rightarrow> manual_module_loading h module_path [] reg
      | Inr (Some p) \<Rightarrow>
          (case name p of
             None \<Rightarrow> (Inl AttributeError, reg)
           | Some n \<Rightarrow>
               if n \<in> fst ` set reg then manual_module_loading h module_path [] reg
               else (Inr [p], reg @ [(n, p)])))"
  by (cases "get_plugin_loader h")
     (auto simp: load_integration_module_def register_def update_fresh
           split: sum.splits option.splits)

lemma manual_module_loading_unresolvable:
  "unresolvable h module_path \<Longrightarrow>
   \<exists>c. manual_module_loading h module_path acc reg
          = (Inl (QuackError ErrorAccessing module_path (Some c)), reg)"
  using resolve_module_cases[of h module_path] by (auto simp: manual_module_loading_def)

lemma manual_module_loading_resolved:
  "resolve_module h module_path = Inr m \<Longrightarrow>
   manual_module_loading h module_path acc reg = load_from_module m acc reg"
  by (simp add: manual_module_loading_def)


text \<open>
  C10. When the plugin loader yields a conformant instance whose name is already
  registered, \<open>load_integration_module\<close> does not return there: the call is the
  manual module loading on the untouched table. So it raises the module-load error when
  the path cannot be resolved, and otherwise returns what the factory and the class scan
  of the resolved module give; the duplicate-registration error never reaches the
  caller.
\<close>

theorem plugin_loader_duplicate_falls_through:
  assumes "get_plugin_loader h = Some lp" and "lp module_path = Inr p"
    and "satisfies_contract p" and "name p = Some n" and "n \<in> fst ` set reg"
  shows "load_integration_module h module_path reg = manual_module_loading h module_path [] reg
         \<and> \<not> is_duplicate_error (fst (load_integration_module h module_path reg))
         \<and> (unresolvable h module_path \<longrightarrow>
               is_module_load_error (fst (load_integration_module h module_path reg))
               \<and> snd (load_integration_module h module_path reg) = reg)
         \<and> (\<forall>m. resolve_module h module_path = Inr m \<longrightarrow>
               load_integration_module h module_path reg = load_from_module m [] reg
               \<and> (\<exists>found new. load_integration_module h module_path reg
                     = (Inr found, reg @ map (\<lambda>x. (the (name x), x)) new)))"
proof -
  have s: "load_integration_with_plugin_loader module_path (get_plugin_loader h) = Inr (Some p)"
    using assms(1,2,3) by (simp add: plugin_loader_strategy_eq)
  have eq: "load_integration_module h module_path reg = manual_module_loading h module_path [] reg"
    using s assms(4,5) by (simp add: load_integration_module_eq)
  have un: "is_module_load_error (fst (load_integration_module h module_path reg))
            \<and> snd (load_integration_module h module_path reg) = reg"
    if "unresolvable h module_path"
    using manual_module_loading_unresolvable[OF that, of "[]" reg] eq by auto
  have res: "load_integration_module h module_path reg = load_from_module m [] reg
               \<and> (\<exists>found new. load_integration_module h module_path reg
                     = (Inr found, reg @ map (\<lambda>x. (the (name x), x)) new))"
    if "resolve_module h module_path = Inr m" for m
    using manual_module_loading_resolved[OF that, of "[]" reg] eq
      load_from_module_returns[of m "[]" reg] by simp
  have nd: "\<not> is_duplicate_error (fst (load_integration_module h module_path reg))"
  proof (cases "unresolvable h module_path")
    case True
    then show ?thesis
      using manual_module_loading_unresolvable[OF True, of "[]" reg] eq by auto
  next
    case False
    then obtain m where "resolve_module h module_path = Inr m"
      using resolve_module_cases[of h module_path] by auto
    then obtain found new where
      "load_integration_module h module_path reg
         = (Inr found, reg @ map (\<lambda>x. (the (name x), x)) new)"
      using res[of m] by blast
    then show ?thesis by simp
  qed
  show ?thesis using eq nd un res by blast
qed

lemmas fixture_defs =
  alpha_loader_def factory_module_def two_class_module_def test_fixture_module_def
  integration_instance_def data_only_instance_def bare_object_def local_class_def
  empty_module_def host_with_def discovery_module_def

lemmas eval_defs =
  load_integration_module_def manual_module_loading_def resolve_module_def load_from_module_def
  load_integration_from_factory_def load_integrations_from_module_def
  test_integration_instances_def scan_attribute_def startswith_underscore_def
  load_integration_with_plugin_loader_def get_plugin_loader_def register_def
  hasattr_def callable_attr_def satisfies_contract_def unresolvable_def

theorem plugin_loader_duplicate_falls_through_witness:
  "get_plugin_loader (host_with (Some alpha_loader) [(''pkg.mod'', factory_module)] [])
     = Some alpha_loader
   \<and> alpha_loader ''pkg.mod'' = Inr (integration_instance 1 ''alpha'')
   \<and> satisfies_contract (integration_instance 1 ''alpha'')
   \<and> name (integration_instance 1 ''alpha'') = Some ''alpha''
   \<and> ''alpha'' \<in> fst ` set [(''alpha'', integration_instance 7 ''alpha'')]
   \<and> load_integration_module (host_with (Some alpha_loader) [(''pkg.mod'', factory_module)] [])
        ''pkg.mod'' [(''alpha'', integration_instance 7 ''alpha'')]
       = load_from_module factory_module [] [(''alpha'', integration_instance 7 ''alpha'')]
   \<and> load_from_module factory_module [] [(''alpha'', integration_instance 7 ''alpha'')]
       = (Inr [integration_instance 2 ''beta''],
          [(''alpha'', integration_instance 7 ''alpha''), (''beta'', integration_instance 2 ''beta'')])"
proof -
  let ?h = "host_with (Some alpha_loader) [(''pkg.mod'', factory_module)] []"
  let ?reg = "[(''alpha'', integration_instance 7 ''alpha'')]"
  have h1: "get_plugin_loader ?h = Some alpha_loader" by simp
  have h2: "alpha_loader ''pkg.mod'' = Inr (integration_instance 1 ''alpha'')"
    by (simp add: alpha_loader_def)
  have h3: "satisfies_contract (integration_instance 1 ''alpha'')"
    by (simp add: satisfies_contract_def integration_instance_def)
  have h4: "name (integration_instance 1 ''alpha'') = Some ''alpha''"
    by (simp add: integration_instance_def)
  have h5: "''alpha'' \<in> fst ` set ?reg" by simp
  have r: "resolve_module ?h ''pkg.mod'' = Inr factory_module"
    by (simp add: resolve_module_def host_with_def)
  have v: "load_from_module factory_module [] ?reg
       = (Inr [integration_instance 2 ''beta''],
          [(''alpha'', integration_instance 7 ''alpha''), (''beta'', integration_instance 2 ''beta'')])"
    by (simp add: eval_defs fixture_defs)
  have t: "load_integration_module ?h ''pkg.mod'' ?reg = load_from_module factory_module [] ?reg"
    using plugin_loader_duplicate_falls_through [OF h1 h2 h3 h4 h5] r by blast
  show ?thesis using h1 h2 h3 h4 h5 t v by blast
qed




text \<open>
  An exception of the plugin loader that \<^verbatim>\<open>_load_integration_with_plugin_loader\<close>
  does not name (a RuntimeError, a QuackError) leaves \<open>load_integration_module\<close>
  as it is, before any module is looked up.
\<close>

lemma plugin_loader_exception_leaves:
  "get_plugin_loader h = Some lp \<Longrightarrow> lp module_path = Inl err
   \<Longrightarrow> err \<notin> {ImportError, AttributeError, TypeError, ValueError}
   \<Longrightarrow> load_integration_module h module_path reg = (Inl err, reg)"
  by (simp add: load_integration_module_eq plugin_loader_strategy_eq)







section \<open>The acceptance points\<close>

lemma entry_strategy_fallback:
  "entry_falls_back is_protocol e pl \<Longrightarrow>
   load_integration_from_entry is_protocol e pl =
     (case ep_load e of
        Inl err \<Rightarrow> None
      | Inr f \<Rightarrow> if callable f
                 then (case call f of Inl err \<Rightarrow> None
                       | Inr x \<Rightarrow> if is_protocol x then Some x else None)
                 else None)"
  by (auto simp: entry_falls_back_def load_integration_from_entry_def
      split: option.splits sum.splits)



text \<open>
  The entries that yield nothing: \<^verbatim>\<open>load()\<close> raises, the factory raises, the object
  is not accepted, or the plugin loader raises an exception that the inner handler does
  not name.
\<close>

lemma entry_load_raises_yields_nothing:
  "entry_falls_back is_protocol e pl \<Longrightarrow> ep_load e = Inl err
   \<Longrightarrow> load_integration_from_entry is_protocol e pl = None"
  by (simp add: entry_strategy_fallback)

lemma entry_object_rejected_yields_nothing:
  "entry_falls_back is_protocol e pl \<Longrightarrow> ep_load e = Inr f \<Longrightarrow> call f = Inr obj
   \<Longrightarrow> \<not> is_protocol obj \<Longrightarrow> load_integration_from_entry is_protocol e pl = None"
  by (simp add: entry_strategy_fallback)

lemma entry_factory_raises_yields_nothing:
  "entry_falls_back is_protocol e pl \<Longrightarrow> ep_load e = Inr f \<Longrightarrow> call f = Inl err
   \<Longrightarrow> load_integration_from_entry is_protocol e pl = None"
  by (simp add: entry_strategy_fallback)

lemma entry_plugin_loader_raises_yields_nothing:
  "lp (ep_value e) = Inl err \<Longrightarrow> err \<noteq> ImportError \<Longrightarrow> err \<noteq> AttributeError
   \<Longrightarrow> load_integration_from_entry is_protocol e (Some lp) = None"
  by (simp add: load_integration_from_entry_def)

text \<open>
  Python's \<^verbatim>\<open>isinstance\<close> against a runtime-checkable protocol tests that the members
  are present. If \<^verbatim>\<open>IntegrationProtocol\<close> is such a protocol with the four members,
  the entry-point path accepts an instance whose \<open>initialize\<close> is not callable.
\<close>

lemma entry_point_presence_check:
  "load_integration_from_entry has_four_attributes
     \<lparr>ep_name = ''data'', ep_value = ''pkg.data:make'',
      ep_load = Inr (Function (Inr (data_only_instance 6 ''data'')))\<rparr> None
     = Some (data_only_instance 6 ''data'')
   \<and> \<not> satisfies_contract (data_only_instance 6 ''data'')"
  by (simp add: load_integration_from_entry_def has_four_attributes_def data_only_instance_def
      satisfies_contract_def)




section \<open>The claim about the provider registry\<close>

lemma lower_char_idem: "lower_char (lower_char c) = lower_char c"
  by (auto simp: lower_char_def Let_def)

lemma lower_idem: "lower (lower s) = lower s"
  by (simp add: lower_def lower_char_idem)

lemma sublist_behind: "sublist k ys \<Longrightarrow> sublist k (ps @ ys)"
  by (simp add: sublist_append)

lemma join_contains: "k \<in> set ks \<Longrightarrow> sublist k (join sep ks)"
proof (induction sep ks rule: join.induct)
  case (1 sep)
  then show ?case by simp
next
  case (2 sep x)
  then show ?case by simp
next
  case (3 sep x y ys)
  show ?case
  proof (cases "k = x")
    case True
    then show ?thesis by simp
  next
    case False
    with 3 have "sublist k (join sep (y # ys))" by simp
    then have "sublist k (sep @ join sep (y # ys))" by (rule sublist_behind)
    then have "sublist k (x @ sep @ join sep (y # ys))" by (rule sublist_behind)
    then show ?thesis by simp
  qed
qed

lemma unsupported_message_contains:
  "k \<in> set registered \<Longrightarrow> sublist k (unsupported_message provider_name registered)"
proof -
  assume "k \<in> set registered"
  then have "sublist k (join '', '' registered)" by (rule join_contains)
  then have "sublist k ((''Unsupported LLM provider: '' @ provider_name
                          @ ''. Registered providers: '') @ join '', '' registered)"
    by (rule sublist_behind)
  then show ?thesis by (simp add: unsupported_message_def)
qed

text \<open>
  C6, as amended. \<open>resolve\<close> lowercases the name before the lookup. For a name whose
  lowercase form is in the Provider Table, resolving it has the outcome of resolving the
  lowercase name and is never the unsupported-provider error: it is the client when the
  provider's constructor accepts the options, and the construction error with the
  constructor's cause when it does not. For a name whose lowercase form is not in the
  table, \<open>resolve\<close> raises the unsupported-provider error, and every registered
  provider name occurs in its message.
\<close>

theorem resolve_case_insensitive:
  "(lower provider_name \<in> fst ` set table \<longrightarrow>
      resolve table provider_name opts = resolve table (lower provider_name) opts
      \<and> (\<forall>msg. resolve table provider_name opts \<noteq> Inl (UnsupportedProviderError msg))
      \<and> (\<forall>constructor client.
            map_of table (lower provider_name) = Some constructor
            \<and> constructor opts = Inr client
            \<longrightarrow> resolve table provider_name opts = Inr client)
      \<and> (\<forall>constructor cause.
            map_of table (lower provider_name) = Some constructor
            \<and> constructor opts = Inl cause
            \<longrightarrow> resolve table provider_name opts = Inl (ProviderConstructionError cause)))
   \<and> (lower provider_name \<notin> fst ` set table \<longrightarrow>
        resolve table provider_name opts
          = Inl (UnsupportedProviderError (unsupported_message provider_name (map fst table)))
        \<and> (\<forall>k \<in> fst ` set table.
              sublist k (unsupported_message provider_name (map fst table))))"
proof (intro conjI impI allI)
  assume present: "lower provider_name \<in> fst ` set table"
  then obtain constructor where c: "map_of table (lower provider_name) = Some constructor"
    by (metis map_of_eq_None_iff not_Some_eq)
  show "resolve table provider_name opts = resolve table (lower provider_name) opts"
    using c by (simp add: resolve_def lower_idem)
  show "resolve table provider_name opts \<noteq> Inl (UnsupportedProviderError msg)" for msg
    using c by (simp add: resolve_def split: sum.splits)
  show "resolve table provider_name opts = Inr client"
    if "map_of table (lower provider_name) = Some k \<and> k opts = Inr client" for k client
    using that by (simp add: resolve_def)
  show "resolve table provider_name opts = Inl (ProviderConstructionError cause)"
    if "map_of table (lower provider_name) = Some k \<and> k opts = Inl cause" for k cause
    using that by (simp add: resolve_def)
next
  assume absent: "lower provider_name \<notin> fst ` set table"
  then have "map_of table (lower provider_name) = None" by (simp add: map_of_eq_None_iff)
  then show "resolve table provider_name opts
          = Inl (UnsupportedProviderError (unsupported_message provider_name (map fst table)))"
    by (simp add: resolve_def)
  show "\<forall>k \<in> fst ` set table.
              sublist k (unsupported_message provider_name (map fst table))"
    using unsupported_message_contains[of _ "map fst table" provider_name] by auto
qed

text \<open>
  The claim C6 as it was stated fails: a registered provider, resolved under a case
  variant of its name, with an option bundle that its constructor rejects, does not
  succeed.
\<close>

theorem resolve_case_insensitive_counterexample:
  "lower ''STRICT'' = ''strict''
   \<and> ''strict'' \<in> fst ` set [(''mock'', mock_constructor), (''strict'', strict_constructor)]
   \<and> resolve [(''mock'', mock_constructor), (''strict'', strict_constructor)] ''STRICT'' []
       = Inl (ProviderConstructionError ValueError)
   \<and> resolve [(''mock'', mock_constructor), (''strict'', strict_constructor)] ''strict'' []
       = Inl (ProviderConstructionError ValueError)"
proof -
  have l: "lower ''STRICT'' = ''strict''" by code_simp
  have l2: "lower ''strict'' = ''strict''" by code_simp
  show ?thesis by (simp add: resolve_def l l2 strict_constructor_def)
qed

theorem resolve_case_insensitive_witness:
  "lower ''MOCK'' = ''mock''
   \<and> lower ''MOCK'' \<in> fst ` set [(''mock'', mock_constructor), (''strict'', strict_constructor)]
   \<and> resolve [(''mock'', mock_constructor), (''strict'', strict_constructor)] ''MOCK'' [''a'', ''b'']
       = Inr (MockLLMClient [''a'', ''b''])
   \<and> resolve [(''mock'', mock_constructor), (''strict'', strict_constructor)] ''mock'' [''a'', ''b'']
       = Inr (MockLLMClient [''a'', ''b''])
   \<and> lower ''doesnotexist'' \<notin> fst ` set [(''mock'', mock_constructor), (''strict'', strict_constructor)]
   \<and> resolve [(''mock'', mock_constructor), (''strict'', strict_constructor)] ''doesnotexist''
        [''a'', ''b'']
       = Inl (UnsupportedProviderError
               ''Unsupported LLM provider: doesnotexist. Registered providers: mock, strict'')
   \<and> sublist ''mock''
        (unsupported_message ''doesnotexist''
           (map fst [(''mock'', mock_constructor), (''strict'', strict_constructor)]))
   \<and> sublist ''strict''
        (unsupported_message ''doesnotexist''
           (map fst [(''mock'', mock_constructor), (''strict'', strict_constructor)]))"
proof -
  let ?t = "[(''mock'', mock_constructor), (''strict'', strict_constructor)]"
  have lo: "lower ''MOCK'' = ''mock''" by code_simp
  have lo2: "lower ''mock'' = ''mock''" by code_simp
  have ld: "lower ''doesnotexist'' = ''doesnotexist''" by code_simp
  have p: "lower ''MOCK'' \<in> fst ` set ?t" by (simp add: lo)
  have p2: "lower ''mock'' \<in> fst ` set ?t" by (simp add: lo2)
  have a: "lower ''doesnotexist'' \<notin> fst ` set ?t" by (simp add: ld)
  have m: "map_of ?t (lower ''MOCK'') = Some mock_constructor
           \<and> mock_constructor [''a'', ''b''] = Inr (MockLLMClient [''a'', ''b''])"
    by (simp add: lo mock_constructor_def)
  have m2: "map_of ?t (lower ''mock'') = Some mock_constructor
           \<and> mock_constructor [''a'', ''b''] = Inr (MockLLMClient [''a'', ''b''])"
    by (simp add: lo2 mock_constructor_def)
  have r1: "resolve ?t ''MOCK'' [''a'', ''b''] = Inr (MockLLMClient [''a'', ''b''])"
    using mp [OF conjunct1 [OF resolve_case_insensitive
                [where provider_name = "''MOCK''" and table = ?t and opts = "[''a'', ''b'']"]] p]
          m by blast
  have r2: "resolve ?t ''mock'' [''a'', ''b''] = Inr (MockLLMClient [''a'', ''b''])"
    using mp [OF conjunct1 [OF resolve_case_insensitive
                [where provider_name = "''mock''" and table = ?t and opts = "[''a'', ''b'']"]] p2]
          m2 by blast
  note u = mp [OF conjunct2 [OF resolve_case_insensitive
                [where provider_name = "''doesnotexist''" and table = ?t
                   and opts = "[''a'', ''b'']"]] a]
  have r3: "resolve ?t ''doesnotexist'' [''a'', ''b'']
       = Inl (UnsupportedProviderError
               ''Unsupported LLM provider: doesnotexist. Registered providers: mock, strict'')"
    using conjunct1 [OF u] by (simp add: unsupported_message_def)
  have s1: "sublist ''mock'' (unsupported_message ''doesnotexist'' (map fst ?t))"
    using conjunct2 [OF u] by simp
  have s2: "sublist ''strict'' (unsupported_message ''doesnotexist'' (map fst ?t))"
    using conjunct2 [OF u] by simp
  show ?thesis
    by (intro conjI) (rule lo p a r1 r2 r3 s1 s2)+
qed

text \<open>
  \<open>register_provider\<close> stores under the lowercased name, replacing an earlier entry;
  the provider is then found under the name as it was given.
\<close>

lemma register_provider_lookup:
  "map_of (register_provider provider_name constructor table) (lower provider_name)
     = Some constructor"
  by (simp add: register_provider_def update_conv')

lemma register_provider_resolve:
  "constructor opts = Inr client
   \<Longrightarrow> resolve (register_provider provider_name constructor table) provider_name opts
         = Inr client"
  by (simp add: resolve_def register_provider_lookup)

end
